theory Spec2Isabelle
  imports Main
begin

section \<open>Python strings\<close>

text \<open>
  Texts are lists of 8-bit characters.  The source works on Python \<open>str\<close>; every
  keyword and delimiter it looks for is ASCII, and the model covers the code points
  below 256.
\<close>

definition NL :: char where
  "NL = CHR 0x0A"

definition CR :: char where
  "CR = CHR 0x0D"

text \<open>\<open>str.isspace\<close>, which is also the class \<open>\s\<close> of \<open>re\<close> on \<open>str\<close> patterns.\<close>

definition isspace :: "char \<Rightarrow> bool" where
  "isspace c = (c \<in> set [CHR 0x09, CHR 0x0A, CHR 0x0B, CHR 0x0C, CHR 0x0D,
                          CHR 0x1C, CHR 0x1D, CHR 0x1E, CHR 0x1F, CHR 0x20,
                          CHR 0x85, CHR 0xA0])"

text \<open>\<open>s.strip()\<close> and \<open>s.strip('|')\<close>.\<close>

definition strip :: "string \<Rightarrow> string" where
  "strip s = rev (dropWhile isspace (rev (dropWhile isspace s)))"

definition strip_char :: "char \<Rightarrow> string \<Rightarrow> string" where
  "strip_char d s = rev (dropWhile (\<lambda>c. c = d) (rev (dropWhile (\<lambda>c. c = d) s)))"

text \<open>\<open>s.lower()\<close> on ASCII letters.\<close>

definition lower_char :: "char \<Rightarrow> char" where
  "lower_char c =
     (case map_of (zip ''ABCDEFGHIJKLMNOPQRSTUVWXYZ'' ''abcdefghijklmnopqrstuvwxyz'') c of
        Some d \<Rightarrow> d
      | None \<Rightarrow> c)"

definition lower :: "string \<Rightarrow> string" where
  "lower s = map lower_char s"

text \<open>\<open>sub in s\<close>: \<open>sub\<close> occurs in \<open>s\<close> as a contiguous run.\<close>

definition startswith :: "string \<Rightarrow> string \<Rightarrow> bool" where
  "startswith s sub = (take (length sub) s = sub)"

fun contains :: "string \<Rightarrow> string \<Rightarrow> bool" where
  "contains [] sub = (sub = [])"
| "contains (c # cs) sub = (startswith (c # cs) sub \<or> contains cs sub)"

text \<open>
  \<open>s.splitlines()\<close>: a line ends at any of the line boundaries of \<open>str\<close>, the pair
  CR LF counts once, and a text that ends with a boundary has no empty last line.
\<close>

definition is_linebreak :: "char \<Rightarrow> bool" where
  "is_linebreak c = (c \<in> set [CHR 0x0A, CHR 0x0B, CHR 0x0C, CHR 0x0D,
                              CHR 0x1C, CHR 0x1D, CHR 0x1E, CHR 0x85])"

fun splitlines :: "string \<Rightarrow> string list" where
  "splitlines [] = []"
| "splitlines [c] = (if is_linebreak c then [Nil] else [c # Nil])"
| "splitlines (c # d # cs) =
     (if c = CR \<and> d = NL then [] # splitlines cs
      else if is_linebreak c then [] # splitlines (d # cs)
      else (case splitlines (d # cs) of
              [] \<Rightarrow> [c # Nil]
            | l # ls \<Rightarrow> (c # l) # ls))"

text \<open>\<open>sep.join(xs)\<close>.\<close>

fun join :: "string \<Rightarrow> string list \<Rightarrow> string" where
  "join sep [] = []"
| "join sep [x] = x"
| "join sep (x # y # ys) = x @ sep @ join sep (y # ys)"

section \<open>The table tool: \<open>tools/visualization.py\<close>\<close>

subsection \<open>Data frames\<close>

text \<open>
  A pandas column is kept as its name, whether its dtype is numeric, and its cells as
  read.  A frame is the list of its columns in declaration order.
\<close>

record series =
  sname :: string
  is_numeric_dtype :: bool
  cells :: "string list"

type_synonym frame = "series list"

text \<open>\<open>df.columns\<close> and \<open>df[c]\<close>.\<close>

definition columns :: "frame \<Rightarrow> string list" where
  "columns df = map sname df"

definition getitem :: "frame \<Rightarrow> string \<Rightarrow> series option" where
  "getitem df c = find (\<lambda>s. sname s = c) df"

text \<open>
  \<open>pd.read_csv\<close> belongs to pandas, not to this repository.  The functions below take
  the reader as a parameter: \<open>rd Comma t\<close> stands for \<open>pd.read_csv(io.StringIO(t))\<close>,
  \<open>rd Whitespace t\<close> for \<open>pd.read_csv(io.StringIO(t), sep=r'\s+')\<close>, and \<open>None\<close> for
  any exception the call raises.
\<close>

datatype sep = Comma | Whitespace

type_synonym reader = "sep \<Rightarrow> string \<Rightarrow> frame option"

datatype error =
    EmptyTableText
  | UnparseableTable
  | NoNumericColumn
  | UnsupportedChartType string
  | IndexError
  | AttributeError
  | KeyError string
  | NotAnAIMessage

subsection \<open>Step 1 of \<open>plot_table\<close>: the markdown pipe table\<close>

text \<open>\<open>re.search(r'\|[-\s:]+\|', txt)\<close>: a pipe, one or more of dash, whitespace and
  colon, and a pipe.  The class excludes the pipe, so the run between the two pipes is
  the longest one.\<close>

definition sep_class :: "char \<Rightarrow> bool" where
  "sep_class c = (c = CHR ''-'' \<or> isspace c \<or> c = CHR '':'')"

definition sep_row_here :: "string \<Rightarrow> bool" where
  "sep_row_here s =
     (case s of
        [] \<Rightarrow> False
      | c # r \<Rightarrow>
          c = CHR ''|'' \<and> takeWhile sep_class r \<noteq> [] \<and>
          (case dropWhile sep_class r of [] \<Rightarrow> False | e # _ \<Rightarrow> e = CHR ''|''))"

fun search_sep_row :: "string \<Rightarrow> bool" where
  "search_sep_row [] = False"
| "search_sep_row (c # cs) = (sep_row_here (c # cs) \<or> search_sep_row cs)"

text \<open>\<open>re.match(r'^\s*\|?\s*-{2,}\s*\|?', line)\<close>: optional blanks, an optional pipe,
  optional blanks, then at least two dashes; what follows always matches.\<close>

definition match_separator :: "string \<Rightarrow> bool" where
  "match_separator line =
     (let a = dropWhile isspace line;
          b = (case a of [] \<Rightarrow> [] | c # r \<Rightarrow> if c = CHR ''|'' then r else a)
      in startswith (dropWhile isspace b) ''--'')"

text \<open>The loop over \<open>txt.splitlines()\<close> and the join into \<open>csv_txt\<close>.\<close>

definition markdown_lines :: "string \<Rightarrow> string list" where
  "markdown_lines txt =
     map (\<lambda>line. strip_char (CHR ''|'') (strip line))
       (filter (\<lambda>line. \<not> match_separator line) (splitlines txt))"

definition csv_txt :: "string \<Rightarrow> string" where
  "csv_txt txt = join [NL] (markdown_lines txt)"

definition is_markdown :: "string \<Rightarrow> bool" where
  "is_markdown txt = (CHR ''|'' \<in> set txt \<and> search_sep_row txt)"

definition is_csv :: "string \<Rightarrow> bool" where
  "is_csv txt = (NL \<in> set txt \<and> CHR '','' \<in> set txt)"

text \<open>Lines 34 to 58: the frame, or \<open>None\<close> where the source leaves \<open>df\<close> at \<open>None\<close>.
  An exception in the first \<open>try\<close> resets \<open>df\<close>, and the whitespace reader runs
  whenever \<open>df\<close> is still \<open>None\<close>.\<close>

definition load_frame :: "reader \<Rightarrow> string \<Rightarrow> frame option" where
  "load_frame rd txt =
     (let df = (if is_markdown txt then rd Comma (csv_txt txt)
                else if is_csv txt then rd Comma txt
                else None)
      in case df of
           Some d \<Rightarrow> Some d
         | None \<Rightarrow> rd Whitespace txt)"

subsection \<open>Column selection\<close>

text \<open>The test on a column name in the loop of lines 68 to 71.\<close>

definition time_like :: "string \<Rightarrow> bool" where
  "time_like c =
     (lower c \<in> set [''date'', ''year'', ''time''] \<or>
      contains (lower c) ''date'' \<or> contains (lower c) ''year'' \<or>
      contains (lower c) ''time'')"

text \<open>\<open>pd.to_numeric(s, errors='coerce')\<close>: the column becomes numeric, and what does
  not parse becomes NaN.\<close>

definition to_numeric :: "series \<Rightarrow> series" where
  "to_numeric s = s\<lparr>is_numeric_dtype := True\<rparr>"

definition setitem :: "frame \<Rightarrow> string \<Rightarrow> series \<Rightarrow> frame" where
  "setitem df c v = map (\<lambda>s. if sname s = c then v\<lparr>sname := c\<rparr> else s) df"

definition numeric_column :: "frame \<Rightarrow> string \<Rightarrow> bool" where
  "numeric_column df c =
     (case getitem df c of None \<Rightarrow> False | Some s \<Rightarrow> is_numeric_dtype s)"

record parsed_table =
  df :: frame
  x_col :: string
  y_col :: string

text \<open>Lines 66 to 91.  \<open>df.columns[0]\<close> raises IndexError on a frame without columns.\<close>

definition choose_x :: "frame \<Rightarrow> error + string" where
  "choose_x d =
     (case find time_like (columns d) of
        Some c \<Rightarrow> Inr c
      | None \<Rightarrow> (case columns d of [] \<Rightarrow> Inl IndexError | c # _ \<Rightarrow> Inr c))"

definition numeric_cols :: "frame \<Rightarrow> string \<Rightarrow> string list" where
  "numeric_cols d x = filter (\<lambda>c. numeric_column d c \<and> c \<noteq> x) (columns d)"

definition first_choice_y :: "frame \<Rightarrow> string \<Rightarrow> string option" where
  "first_choice_y d x =
     (case numeric_cols d x of
        c # _ \<Rightarrow> Some c
      | [] \<Rightarrow> (if length (columns d) > 1 then Some (columns d ! 1) else None))"

definition choose_y :: "frame \<Rightarrow> string \<Rightarrow> frame \<times> string option" where
  "choose_y d x =
     (case first_choice_y d x of
        Some y \<Rightarrow> (d, Some y)
      | None \<Rightarrow>
          (if length (columns d) \<ge> 2
           then (case getitem d (columns d ! 1) of
                   Some s \<Rightarrow> (setitem d (columns d ! 1) (to_numeric s), Some (columns d ! 1))
                 | None \<Rightarrow> (d, None))
           else (d, None)))"

definition select_columns :: "frame \<Rightarrow> error + parsed_table" where
  "select_columns d =
     (case choose_x d of
        Inl e \<Rightarrow> Inl e
      | Inr x \<Rightarrow>
          (case choose_y d x of
             (d', None) \<Rightarrow> Inl NoNumericColumn
           | (d', Some y) \<Rightarrow> Inr \<lparr>df = d', x_col = x, y_col = y\<rparr>))"

text \<open>Lines 30 to 91: the parser part of \<open>plot_table\<close>.\<close>

definition parse_table :: "reader \<Rightarrow> string \<Rightarrow> error + parsed_table" where
  "parse_table rd table_text =
     (let txt = strip table_text
      in if txt = [] then Inl EmptyTableText
         else (case load_frame rd txt of
                 None \<Rightarrow> Inl UnparseableTable
               | Some d \<Rightarrow> select_columns d))"

subsection \<open>Rendering\<close>

text \<open>
  What lines 100 to 123 draw: the plot call taken, the title and the axis labels.
  Drawing and saving belong to matplotlib and are taken to succeed; the date
  conversion of line 95 changes the x cells only and cannot fail the call.
\<close>

record chart =
  kind :: string
  title :: string
  xlabel :: string
  ylabel :: string

definition render :: "parsed_table \<Rightarrow> string \<Rightarrow> error + chart" where
  "render t chart_type =
     (if chart_type = ''line'' \<or> chart_type = ''bar'' \<or> chart_type = ''scatter''
      then Inr \<lparr>kind = chart_type, title = y_col t @ '' vs '' @ x_col t,
                 xlabel = x_col t, ylabel = y_col t\<rparr>
      else Inl (UnsupportedChartType chart_type))"

definition plot_table :: "reader \<Rightarrow> string \<Rightarrow> string \<Rightarrow> error + chart" where
  "plot_table rd table_text chart_type =
     (case parse_table rd table_text of
        Inl e \<Rightarrow> Inl e
      | Inr t \<Rightarrow> render t chart_type)"

section \<open>Messages and the graph state: \<open>config/state.py\<close>\<close>

text \<open>
  A LangChain message: a human message, an assistant message with its requested tool
  invocations, or a tool result with the producing tool's name and the call id it
  answers.  Content is a string or a list of string blocks.
\<close>

record tool_call =
  tc_name :: string
  tc_args :: "(string \<times> string) list"
  tc_id :: string

datatype content = Text string | Blocks "string list"

datatype message =
    HumanMessage content
  | AIMessage content "tool_call list"
  | ToolMessage content string string

text \<open>\<open>mode\<close> and \<open>table_text\<close> are read with \<open>state.get\<close>: \<open>None\<close> is an absent key.\<close>

record MyGraphState =
  messages :: "message list"
  mode :: "string option"
  table_text :: "string option"

section \<open>\<open>utils/helpers.py\<close>\<close>

text \<open>What a caller may pass: messages, \<open>None\<close>, nested lists, and objects of other
  types.\<close>

datatype raw = Msg message | PyNone | Nested "raw list" | Other

function flatten_messages :: "raw list \<Rightarrow> raw list" where
  "flatten_messages [] = []"
| "flatten_messages (PyNone # stack) = flatten_messages stack"
| "flatten_messages (Nested m # stack) = flatten_messages (m @ stack)"
| "flatten_messages (Msg m # stack) = Msg m # flatten_messages stack"
| "flatten_messages (Other # stack) = Other # flatten_messages stack"
  by pat_completeness auto
termination
  by (relation "measure (size_list size)") auto

text \<open>Lines 45 to 50: the text of an assistant message.\<close>

definition ai_text :: "content \<Rightarrow> string" where
  "ai_text c =
     (case c of
        Text s \<Rightarrow> s
      | Blocks xs \<Rightarrow> (if xs = [] then [] else join '' '' (filter (\<lambda>x. x \<noteq> []) xs)))"

fun keep_last :: "message option \<Rightarrow> raw \<Rightarrow> message option" where
  "keep_last last_found (Msg (AIMessage c tcs)) =
     (if strip (ai_text c) \<noteq> [] then Some (AIMessage c tcs) else last_found)"
| "keep_last last_found _ = last_found"

definition last_nonempty_ai_message :: "raw list \<Rightarrow> message option" where
  "last_nonempty_ai_message msgs = foldl keep_last None (flatten_messages msgs)"

section \<open>The agents: \<open>agents/nodes.py\<close>\<close>

text \<open>
  The collaborators of a run.  \<open>invoke r state\<close> is the assistant message the language
  model returns for runnable \<open>r\<close> (its content and its tool calls); \<open>tool_result\<close> is
  what \<open>ToolNode\<close> of langgraph answers for one tool call (the tool's output or an error
  text); \<open>read_csv\<close> is pandas' reader; \<open>out_path\<close> is the file the plot is saved to and
  \<open>uuid4\<close> a fresh identifier.
\<close>

datatype runnable =
  planner_runnable | researcher_runnable | summarizer_runnable | visualizer_runnable

record env =
  invoke :: "runnable \<Rightarrow> MyGraphState \<Rightarrow> content \<times> tool_call list"
  tool_result :: "tool_call \<Rightarrow> string"
  read_csv :: reader
  out_path :: string
  uuid4 :: string

definition ask :: "env \<Rightarrow> runnable \<Rightarrow> MyGraphState \<Rightarrow> message" where
  "ask e r state = (case invoke e r state of (c, tcs) \<Rightarrow> AIMessage c tcs)"

definition planner_agent :: "env \<Rightarrow> MyGraphState \<Rightarrow> message list" where
  "planner_agent e state = [ask e planner_runnable state]"

definition researcher_agent :: "env \<Rightarrow> MyGraphState \<Rightarrow> message list" where
  "researcher_agent e state = [ask e researcher_runnable state]"

definition summarizer_agent :: "env \<Rightarrow> MyGraphState \<Rightarrow> message list" where
  "summarizer_agent e state = [ask e summarizer_runnable state]"

text \<open>The text of an exception, as \<open>f"{e}"\<close> prints it.\<close>

definition describe :: "error \<Rightarrow> string" where
  "describe e =
     (case e of
        EmptyTableText \<Rightarrow> ''plot_table: table_text is empty''
      | UnparseableTable \<Rightarrow>
          ''plot_table: Unable to parse table_text into a DataFrame. '' @
          ''Provide CSV or markdown table with header row.''
      | NoNumericColumn \<Rightarrow>
          ''plot_table: No numeric column found to plot. '' @
          ''Provide at least one numeric column.''
      | UnsupportedChartType ct \<Rightarrow> ''plot_table: Unsupported chart_type: '' @ ct
      | IndexError \<Rightarrow> ''index 0 is out of bounds for axis 0 with size 0''
      | AttributeError \<Rightarrow>
          [CHR 0x27] @ ''list'' @ [CHR 0x27] @ '' object has no attribute '' @
          [CHR 0x27] @ ''lower'' @ [CHR 0x27]
      | KeyError k \<Rightarrow> [CHR 0x27] @ k @ [CHR 0x27]
      | NotAnAIMessage \<Rightarrow> ''Last message is not an AIMessage'')"

text \<open>Lines 86 to 91: the chart type read off the lowercased content.\<close>

definition chart_type_of :: "string \<Rightarrow> string" where
  "chart_type_of content_lower =
     (if contains content_lower ''bar chart'' \<or>
         (contains content_lower ''bar'' \<and> \<not> contains content_lower ''line'')
      then ''bar''
      else if contains content_lower ''scatter'' then ''scatter''
      else ''line'')"

text \<open>\<open>(ai.content or "").lower()\<close>: a non-empty list has no \<open>lower\<close>.\<close>

definition content_lower :: "content \<Rightarrow> error + string" where
  "content_lower c =
     (case c of
        Text s \<Rightarrow> Inr (lower s)
      | Blocks xs \<Rightarrow> (if xs = [] then Inr (lower []) else Inl AttributeError))"

definition auto_plot :: "env \<Rightarrow> string \<Rightarrow> content \<Rightarrow> error + string \<times> string" where
  "auto_plot e tt c =
     (case content_lower c of
        Inl err \<Rightarrow> Inl err
      | Inr cl \<Rightarrow>
          (case plot_table (read_csv e) tt (chart_type_of cl) of
             Inl err \<Rightarrow> Inl err
           | Inr ch \<Rightarrow> Inr (chart_type_of cl, out_path e)))"

definition visualizer_agent :: "env \<Rightarrow> MyGraphState \<Rightarrow> message list" where
  "visualizer_agent e state =
     (case invoke e visualizer_runnable state of
        (c, tool_calls) \<Rightarrow>
          (if tool_calls \<noteq> [] then [AIMessage c tool_calls]
           else if table_text state = None \<or> table_text state = Some []
           then [AIMessage c tool_calls]
           else (case auto_plot e (the (table_text state)) c of
                   Inr (chart_type, file_path) \<Rightarrow>
                     [AIMessage c tool_calls,
                      ToolMessage (Text file_path) ''plot_table'' (uuid4 e),
                      AIMessage (Text (''Automatically plotted table as a '' @ chart_type @
                                       '' chart. File saved at: '' @ file_path)) []]
                 | Inl err \<Rightarrow>
                     [AIMessage c tool_calls,
                      AIMessage (Text (''Failed to auto-plot the table: '' @ describe err)) []])))"

text \<open>\<open>tools_node\<close>: one tool message for every tool call of the last message, which
  has to be an assistant message.\<close>

definition tools_node :: "env \<Rightarrow> MyGraphState \<Rightarrow> error + message list" where
  "tools_node e state =
     (case rev (messages state) of
        AIMessage c tcs # _ \<Rightarrow>
          Inr (map (\<lambda>tc. ToolMessage (Text (tool_result e tc)) (tc_name tc) (tc_id tc)) tcs)
      | _ \<Rightarrow> Inl NotAnAIMessage)"

section \<open>Routing: \<open>agents/routing.py\<close>\<close>

definition END :: string where
  "END = ''__end__''"

definition START :: string where
  "START = ''__start__''"

text \<open>\<open>hasattr(last, "tool_calls") and last.tool_calls\<close>: only an assistant message
  has the attribute.\<close>

fun requests_tool :: "message \<Rightarrow> bool" where
  "requests_tool (AIMessage c tcs) = (tcs \<noteq> [])"
| "requests_tool _ = False"

definition get_mode :: "MyGraphState \<Rightarrow> string" where
  "get_mode state = (case mode state of None \<Rightarrow> ''full'' | Some m \<Rightarrow> m)"

text \<open>\<open>state["messages"][-1]\<close> raises IndexError on an empty list.\<close>

definition route_from_researcher :: "MyGraphState \<Rightarrow> error + string" where
  "route_from_researcher state =
     (case rev (messages state) of
        [] \<Rightarrow> Inl IndexError
      | final # _ \<Rightarrow>
          (if requests_tool final then Inr ''tools''
           else if get_mode state = ''research'' then Inr END
           else Inr ''summarizer_agent''))"

definition route_from_summarizer :: "MyGraphState \<Rightarrow> error + string" where
  "route_from_summarizer state =
     (case rev (messages state) of
        [] \<Rightarrow> Inl IndexError
      | final # _ \<Rightarrow>
          (if requests_tool final then Inr ''tools''
           else if get_mode state = ''summary'' then Inr END
           else Inr ''visualizer_agent''))"

definition route_from_visualizer :: "MyGraphState \<Rightarrow> error + string" where
  "route_from_visualizer state =
     (case rev (messages state) of
        [] \<Rightarrow> Inl IndexError
      | final # _ \<Rightarrow> (if requests_tool final then Inr ''tools'' else Inr END))"

section \<open>The graph: \<open>agents/graph.py\<close>\<close>

text \<open>
  The workflow as \<open>create_graph\<close> builds it: the nodes, the plain edges, and for every
  conditional edge the routing function with its path map.  The path maps are the
  dictionaries of the source, key by key.
\<close>

record workflow =
  nodes :: "(string \<times> (env \<Rightarrow> MyGraphState \<Rightarrow> error + message list)) list"
  edges :: "(string \<times> string) list"
  conditional_edges ::
    "(string \<times> (MyGraphState \<Rightarrow> error + string) \<times> (string \<times> string) list) list"

definition create_graph :: workflow where
  "create_graph =
     \<lparr>nodes =
        [(''planner_agent'', \<lambda>e state. Inr (planner_agent e state)),
         (''researcher_agent'', \<lambda>e state. Inr (researcher_agent e state)),
         (''summarizer_agent'', \<lambda>e state. Inr (summarizer_agent e state)),
         (''visualizer_agent'', \<lambda>e state. Inr (visualizer_agent e state)),
         (''tools'', tools_node)],
      edges =
        [(START, ''planner_agent''),
         (''planner_agent'', ''researcher_agent'')],
      conditional_edges =
        [(''researcher_agent'', route_from_researcher,
            [(''tools'', ''tools''),
             (''summarizer_agent'', ''summarizer_agent''),
             (END, END)]),
         (''tools'', \<lambda>state. Inr ''researcher_agent'',
            [(''researcher_agent'', ''researcher_agent'')]),
         (''summarizer_agent'', route_from_summarizer,
            [(''visualizer_agent'', ''visualizer_agent''),
             (END, END)]),
         (''visualizer_agent'', route_from_visualizer,
            [(END, END)])]\<rparr>"

text \<open>
  How langgraph follows the edges of a node: a plain edge leads to its target; a
  conditional edge calls the routing function and looks the answer up in the path map,
  and an answer that is no key of the map raises KeyError, which ends the run.
\<close>

definition next_node :: "workflow \<Rightarrow> string \<Rightarrow> MyGraphState \<Rightarrow> error + string" where
  "next_node g n state =
     (case map_of (edges g) n of
        Some target \<Rightarrow> Inr target
      | None \<Rightarrow>
          (case map_of (conditional_edges g) n of
             None \<Rightarrow> Inr END
           | Some (route, path_map) \<Rightarrow>
               (case route state of
                  Inl err \<Rightarrow> Inl err
                | Inr key \<Rightarrow>
                    (case map_of path_map key of
                       None \<Rightarrow> Inl (KeyError key)
                     | Some target \<Rightarrow> Inr target))))"

definition exec_node :: "workflow \<Rightarrow> env \<Rightarrow> string \<Rightarrow> MyGraphState \<Rightarrow> error + message list" where
  "exec_node g e n state =
     (case map_of (nodes g) n of
        None \<Rightarrow> Inl (KeyError n)
      | Some f \<Rightarrow> f e state)"

text \<open>\<open>add_messages\<close>, the reducer of the \<open>messages\<close> key: the update is appended.
  (Messages carry no id here, so the reducer's replacement of a message with a known id
  does not arise.)\<close>

definition add_messages :: "MyGraphState \<Rightarrow> message list \<Rightarrow> MyGraphState" where
  "add_messages state new = state\<lparr>messages := messages state @ new\<rparr>"

text \<open>
  A run.  The trace records every node that ran with the messages it returned.  The
  number of steps is bounded (langgraph's recursion limit); a run that needs more ends
  as \<open>OutOfSteps\<close>.
\<close>

datatype status = Finished | Aborted error | OutOfSteps

type_synonym trace = "(string \<times> message list) list"

fun run ::
  "workflow \<Rightarrow> env \<Rightarrow> nat \<Rightarrow> string \<Rightarrow> MyGraphState \<Rightarrow> trace \<Rightarrow> status \<times> MyGraphState \<times> trace"
where
  "run g e 0 n state tr = (OutOfSteps, state, tr)"
| "run g e (Suc k) n state tr =
     (if n = END then (Finished, state, tr)
      else (case exec_node g e n state of
              Inl err \<Rightarrow> (Aborted err, state, tr)
            | Inr new \<Rightarrow>
                (case next_node g n (add_messages state new) of
                   Inl err \<Rightarrow> (Aborted err, add_messages state new, tr @ [(n, new)])
                 | Inr n' \<Rightarrow> run g e k n' (add_messages state new) (tr @ [(n, new)]))))"

text \<open>\<open>app.invoke(inputs)\<close>: the run enters at the target of the edge from START.\<close>

definition app_invoke :: "env \<Rightarrow> nat \<Rightarrow> MyGraphState \<Rightarrow> status \<times> MyGraphState \<times> trace" where
  "app_invoke e limit inputs =
     (case next_node create_graph START inputs of
        Inl err \<Rightarrow> (Aborted err, inputs, [])
      | Inr n \<Rightarrow> run create_graph e limit n inputs [])"

text \<open>The nodes that ran, in order.\<close>

definition steps :: "status \<times> MyGraphState \<times> trace \<Rightarrow> string list" where
  "steps r = map fst (snd (snd r))"

text \<open>A trace in which no step returned a message that requests a tool.\<close>

definition tool_free :: "trace \<Rightarrow> bool" where
  "tool_free tr = list_all (\<lambda>step. list_all (\<lambda>m. \<not> requests_tool m) (snd step)) tr"

section \<open>A reader for plain tables\<close>

text \<open>
  A model of \<open>pd.read_csv\<close> on plain tables, used to run the code on concrete texts:
  lines separated by LF, blank lines skipped, the first line the header, no quoting,
  distinct column names, and every row with as many fields as the header (any other
  text is answered \<open>None\<close>).  With \<open>Comma\<close> a line is split at every comma; with
  \<open>Whitespace\<close> at every run of blanks.  A column is numeric when it has a row and all
  its cells are decimal numerals.  The general theorems below hold for every reader
  and do not depend on this one.
\<close>

fun split_at :: "(char \<Rightarrow> bool) \<Rightarrow> string \<Rightarrow> string list" where
  "split_at p [] = [Nil]"
| "split_at p (c # cs) =
     (if p c then [] # split_at p cs
      else (case split_at p cs of
              [] \<Rightarrow> [c # Nil]
            | f # fs \<Rightarrow> (c # f) # fs))"

definition fields :: "sep \<Rightarrow> string \<Rightarrow> string list" where
  "fields sp line =
     (case sp of
        Comma \<Rightarrow> split_at (\<lambda>c. c = CHR '','') line
      | Whitespace \<Rightarrow> filter (\<lambda>f. f \<noteq> []) (split_at isspace line))"

definition isdigit :: "char \<Rightarrow> bool" where
  "isdigit c = (c \<in> set ''0123456789'')"

definition is_number :: "string \<Rightarrow> bool" where
  "is_number s =
     (let t = (case s of [] \<Rightarrow> [] | c # r \<Rightarrow> if c = CHR ''-'' then r else s);
          frac = dropWhile isdigit t
      in takeWhile isdigit t \<noteq> [] \<and>
         (frac = [] \<or>
          (take 1 frac = ''.'' \<and> drop 1 frac \<noteq> [] \<and> list_all isdigit (drop 1 frac))))"

definition column_at :: "string list \<Rightarrow> string list list \<Rightarrow> nat \<Rightarrow> series" where
  "column_at names body i =
     \<lparr>sname = names ! i,
      is_numeric_dtype = (body \<noteq> [] \<and> list_all (\<lambda>r. is_number (r ! i)) body),
      cells = map (\<lambda>r. r ! i) body\<rparr>"

definition pandas_read_csv :: reader where
  "pandas_read_csv sp text =
     (case filter (\<lambda>l. strip l \<noteq> []) (split_at (\<lambda>c. c = NL) text) of
        [] \<Rightarrow> None
      | header # rows \<Rightarrow>
          (let names = fields sp header; body = map (fields sp) rows
           in if names \<noteq> [] \<and> distinct names \<and>
                 list_all (\<lambda>r. length r = length names) body
              then Some (map (column_at names body) [0..<length names])
              else None))"

section \<open>Example collaborators and inputs\<close>

text \<open>Concrete collaborators on which the definitions are run: a model that never asks
  for a tool, one whose researcher asks for a search until the state holds three
  messages, and one whose visualizer asks for the plot tool.\<close>

definition quiet_env :: env where
  "quiet_env =
     \<lparr>invoke = (\<lambda>r state. (Text ''ok'', [])),
      tool_result = (\<lambda>tc. ''No results found.''),
      read_csv = pandas_read_csv,
      out_path = ''outputs/plot.png'',
      uuid4 = ''0''\<rparr>"

definition search_call :: tool_call where
  "search_call = \<lparr>tc_name = ''web_search'', tc_args = [(''user_input'', ''ev'')], tc_id = ''call_1''\<rparr>"

definition plot_call :: tool_call where
  "plot_call = \<lparr>tc_name = ''plot_table'', tc_args = [(''chart_type'', ''bar'')], tc_id = ''call_2''\<rparr>"

definition searching_env :: env where
  "searching_env =
     quiet_env\<lparr>invoke := (\<lambda>r state.
        if r = researcher_runnable \<and> length (messages state) < 3
        then (Text [], [search_call]) else (Text ''ok'', []))\<rparr>"

definition plotting_env :: env where
  "plotting_env =
     quiet_env\<lparr>invoke := (\<lambda>r state.
        if r = visualizer_runnable then (Text [], [plot_call]) else (Text ''ok'', []))\<rparr>"

definition inputs :: "string option \<Rightarrow> MyGraphState" where
  "inputs m = \<lparr>messages = [HumanMessage (Text ''Find 2 recent stats'')], mode = m, table_text = Some []\<rparr>"

text \<open>Table texts: a CSV table, the same data as a markdown pipe table, a table of two
  text columns, and a table whose second column is the year.\<close>

definition year_revenue_csv :: string where
  "year_revenue_csv = ''year,revenue'' @ [NL] @ ''2020,100'' @ [NL] @ ''2021,200''"

definition year_revenue_markdown :: string where
  "year_revenue_markdown =
     ''|year|revenue|'' @ [NL] @ ''|---|---|'' @ [NL] @ ''|2020|100|'' @ [NL] @ ''|2021|200|''"

definition names_cities_csv :: string where
  "names_cities_csv = ''name,city'' @ [NL] @ ''Alice,Paris'' @ [NL] @ ''Bob,Rome''"

definition label_year_csv :: string where
  "label_year_csv = ''label,year'' @ [NL] @ ''low,2020'' @ [NL] @ ''high,2021''"

text \<open>A visualizer reply that mentions a bar and a line, one that mentions a bar chart, and
  a state that carries a table.\<close>

definition bar_or_line_env :: env where
  "bar_or_line_env = quiet_env\<lparr>invoke := (\<lambda>r state. (Text ''A bar or a line?'', []))\<rparr>"

definition bar_chart_env :: env where
  "bar_chart_env = quiet_env\<lparr>invoke := (\<lambda>r state. (Text ''Here is a Bar Chart.'', []))\<rparr>"

definition table_inputs :: MyGraphState where
  "table_inputs =
     \<lparr>messages = [HumanMessage (Text ''Please visualize the table below.'')],
      mode = Some ''visualize'', table_text = Some year_revenue_csv\<rparr>"

text \<open>The nodes a run in research mode may execute.\<close>

definition research_nodes :: "string set" where
  "research_nodes = {''planner_agent'', ''researcher_agent'', ''tools''}"

section \<open>The specification's words\<close>

text \<open>
  The notions the specification uses, written down independently of the code: the text
  of a message content with list-valued content joined by spaces, a text that is not
  blank, the assistant messages that count as an answer, the most recent of them, and
  the occurrence of a word in a text.
\<close>

definition spec_text :: "content \<Rightarrow> string" where
  "spec_text c = (case c of Text s \<Rightarrow> s | Blocks xs \<Rightarrow> join '' '' xs)"

definition non_blank :: "string \<Rightarrow> bool" where
  "non_blank s = list_ex (\<lambda>ch. \<not> isspace ch) s"

fun spec_answer :: "message \<Rightarrow> bool" where
  "spec_answer (AIMessage c tcs) = non_blank (spec_text c)"
| "spec_answer _ = False"

definition spec_last_nonempty_ai :: "message list \<Rightarrow> message option" where
  "spec_last_nonempty_ai ms =
     (case rev (filter spec_answer ms) of [] \<Rightarrow> None | m # _ \<Rightarrow> Some m)"

definition occurs_in :: "string \<Rightarrow> string \<Rightarrow> bool" where
  "occurs_in w t = (\<exists>ps ss. t = ps @ w @ ss)"

section \<open>Properties of the string functions\<close>

lemma all_dropWhile: "(\<forall>x\<in>set (dropWhile P xs). P x) = (\<forall>x\<in>set xs. P x)"
  by (induction xs) auto

lemma strip_empty_iff: "strip s = [] \<longleftrightarrow> (\<forall>ch\<in>set s. isspace ch)"
  by (simp add: strip_def dropWhile_eq_Nil_conv all_dropWhile)

lemma strip_non_blank: "strip s \<noteq> [] \<longleftrightarrow> non_blank s"
  by (auto simp: strip_empty_iff non_blank_def list_ex_iff)

lemma non_blank_append: "non_blank (a @ b) \<longleftrightarrow> non_blank a \<or> non_blank b"
  by (auto simp: non_blank_def list_ex_iff)

lemma non_blank_simps:
  "non_blank [] = False"
  "non_blank (c # s) = (\<not> isspace c \<or> non_blank s)"
  by (simp_all add: non_blank_def)

lemma isspace_space: "isspace (CHR '' '')"
  by (simp add: isspace_def)

lemma non_blank_join: "non_blank (join '' '' xs) \<longleftrightarrow> (\<exists>x\<in>set xs. non_blank x)"
  by (induction "'' ''" xs rule: join.induct)
     (simp_all add: non_blank_append non_blank_simps isspace_space)

lemma startswith_iff: "startswith s sub \<longleftrightarrow> (\<exists>ss. s = sub @ ss)"
  unfolding startswith_def
  by (metis append_eq_conv_conj append_take_drop_id)

lemma contains_iff: "contains s sub \<longleftrightarrow> occurs_in sub s"
proof (induction s)
  case Nil
  show ?case by (auto simp: occurs_in_def)
next
  case (Cons c cs)
  have "occurs_in sub (c # cs) \<longleftrightarrow> (\<exists>ss. c # cs = sub @ ss) \<or> occurs_in sub cs"
    unfolding occurs_in_def
  proof
    assume "\<exists>ps ss. c # cs = ps @ sub @ ss"
    then obtain ps ss where e: "c # cs = ps @ sub @ ss" by blast
    show "(\<exists>ss. c # cs = sub @ ss) \<or> (\<exists>ps ss. cs = ps @ sub @ ss)"
    proof (cases ps)
      case Nil
      with e show ?thesis by auto
    next
      case (Cons p ps')
      with e have "cs = ps' @ sub @ ss" by simp
      then show ?thesis by blast
    qed
  next
    assume "(\<exists>ss. c # cs = sub @ ss) \<or> (\<exists>ps ss. cs = ps @ sub @ ss)"
    then show "\<exists>ps ss. c # cs = ps @ sub @ ss"
    proof
      assume "\<exists>ss. c # cs = sub @ ss"
      then obtain ss where "c # cs = [] @ sub @ ss" by auto
      then show ?thesis by blast
    next
      assume "\<exists>ps ss. cs = ps @ sub @ ss"
      then obtain ps ss where "c # cs = (c # ps) @ sub @ ss" by auto
      then show ?thesis by blast
    qed
  qed
  with Cons show ?case by (simp add: startswith_iff)
qed

section \<open>Properties of \<open>last_nonempty_ai_message\<close>\<close>

lemma non_blank_ai_text: "non_blank (ai_text c) \<longleftrightarrow> non_blank (spec_text c)"
proof (cases c)
  case (Text s)
  then show ?thesis by (simp add: ai_text_def spec_text_def)
next
  case (Blocks xs)
  have "(\<exists>x\<in>set (filter (\<lambda>x. x \<noteq> []) xs). non_blank x) \<longleftrightarrow> (\<exists>x\<in>set xs. non_blank x)"
    by (auto simp: non_blank_def)
  with Blocks show ?thesis
    by (simp add: ai_text_def spec_text_def non_blank_join non_blank_simps)
qed

lemma keep_last_Msg:
  "keep_last acc (Msg m) = (if spec_answer m then Some m else acc)"
  by (cases m) (simp_all add: strip_non_blank non_blank_ai_text)

lemma foldl_keep_last:
  "foldl keep_last acc (map Msg ms) =
     (case rev (filter spec_answer ms) of [] \<Rightarrow> acc | m # _ \<Rightarrow> Some m)"
  by (induction ms rule: rev_induct) (simp_all add: keep_last_Msg)

lemma flatten_messages_flat: "flatten_messages (map Msg ms) = map Msg ms"
  by (induction ms) simp_all

text \<open>
  Claim C6.  On any sequence of messages, \<open>last_nonempty_ai_message\<close> returns the most
  recent assistant message whose text, list-valued content joined by spaces, is not
  blank; human and tool messages are passed over, and the answer is \<open>None\<close> when no
  assistant message qualifies.  On [assistant(""), assistant("  "), human("x"),
  assistant("hello")] it returns the "hello" message.
\<close>

theorem last_nonempty_ai_message_is_most_recent_answer:
  "last_nonempty_ai_message (map Msg ms) = spec_last_nonempty_ai ms \<and>
   last_nonempty_ai_message
     [Msg (AIMessage (Text '''') []), Msg (AIMessage (Text ''  '') []),
      Msg (HumanMessage (Text ''x'')), Msg (AIMessage (Text ''hello'') [])] =
     Some (AIMessage (Text ''hello'') [])"
proof -
  have g: "last_nonempty_ai_message (map Msg ms) = spec_last_nonempty_ai ms" for ms
    by (simp add: last_nonempty_ai_message_def spec_last_nonempty_ai_def
        flatten_messages_flat foldl_keep_last)
  have "spec_last_nonempty_ai
          [AIMessage (Text '''') [], AIMessage (Text ''  '') [],
           HumanMessage (Text ''x''), AIMessage (Text ''hello'') []] =
        Some (AIMessage (Text ''hello'') [])"
    by (simp add: spec_last_nonempty_ai_def non_blank_def spec_text_def isspace_def)
  with g [of "[AIMessage (Text '''') [], AIMessage (Text ''  '') [],
               HumanMessage (Text ''x''), AIMessage (Text ''hello'') []]"] g [of ms]
  show ?thesis by simp
qed

section \<open>Properties of the visualizer's fallback\<close>

lemma chart_type_of_occurs:
  "chart_type_of t =
     (if occurs_in ''bar chart'' t \<or> (occurs_in ''bar'' t \<and> \<not> occurs_in ''line'' t)
      then ''bar''
      else if occurs_in ''scatter'' t then ''scatter''
      else ''line'')"
  by (simp only: chart_type_of_def contains_iff)

text \<open>
  Claim C3, as amended.  When the model's reply is a text without tool call and
  \<open>table_text\<close> is non-empty, the visualizer plots the table itself with the chart
  type read off the lowercased reply: \<open>bar\<close> when it contains "bar chart", or contains
  "bar" and does not contain "line"; otherwise \<open>scatter\<close> when it contains "scatter";
  otherwise \<open>line\<close>.  The tool message and the follow-up message report that type,
  and a failure of the plot is reported by an assistant message.  A reply that
  mentions "bar chart" selects \<open>bar\<close>.
\<close>

theorem auto_plot_chart_type:
  assumes "invoke e visualizer_runnable state = (Text text, [])"
    and "table_text state = Some tt" and "tt \<noteq> []"
  shows "(let chosen =
            (if occurs_in ''bar chart'' (lower text) \<or>
                (occurs_in ''bar'' (lower text) \<and> \<not> occurs_in ''line'' (lower text))
             then ''bar''
             else if occurs_in ''scatter'' (lower text) then ''scatter''
             else ''line'')
          in visualizer_agent e state =
               AIMessage (Text text) [] #
               (case plot_table (read_csv e) tt chosen of
                  Inr ch \<Rightarrow>
                    [ToolMessage (Text (out_path e)) ''plot_table'' (uuid4 e),
                     AIMessage (Text (''Automatically plotted table as a '' @ chosen @
                                      '' chart. File saved at: '' @ out_path e)) []]
                | Inl err \<Rightarrow>
                    [AIMessage (Text (''Failed to auto-plot the table: '' @ describe err)) []]) \<and>
             (occurs_in ''bar chart'' (lower text) \<longrightarrow> chosen = ''bar''))"
proof -
  have "visualizer_agent e state =
          AIMessage (Text text) [] #
          (case plot_table (read_csv e) tt (chart_type_of (lower text)) of
             Inr ch \<Rightarrow>
               [ToolMessage (Text (out_path e)) ''plot_table'' (uuid4 e),
                AIMessage (Text (''Automatically plotted table as a '' @ chart_type_of (lower text) @
                                 '' chart. File saved at: '' @ out_path e)) []]
           | Inl err \<Rightarrow>
               [AIMessage (Text (''Failed to auto-plot the table: '' @ describe err)) []])"
    using assms
    by (simp add: visualizer_agent_def auto_plot_def content_lower_def split: sum.splits)
  then show ?thesis
    unfolding chart_type_of_occurs Let_def by simp
qed

theorem auto_plot_chart_type_witness:
  "invoke bar_chart_env visualizer_runnable table_inputs = (Text ''Here is a Bar Chart.'', []) \<and>
   table_text table_inputs = Some year_revenue_csv \<and> year_revenue_csv \<noteq> [] \<and>
   occurs_in ''bar chart'' (lower ''Here is a Bar Chart.'') \<and>
   visualizer_agent bar_chart_env table_inputs =
     [AIMessage (Text ''Here is a Bar Chart.'') [],
      ToolMessage (Text ''outputs/plot.png'') ''plot_table'' ''0'',
      AIMessage (Text ''Automatically plotted table as a bar chart. File saved at: outputs/plot.png'') []]"
proof -
  have h: "invoke bar_chart_env visualizer_runnable table_inputs = (Text ''Here is a Bar Chart.'', [])"
    "table_text table_inputs = Some year_revenue_csv" "year_revenue_csv \<noteq> []"
    by (simp_all add: bar_chart_env_def table_inputs_def year_revenue_csv_def)
  have o: "occurs_in ''bar chart'' (lower ''Here is a Bar Chart.'')"
    unfolding contains_iff [symmetric] by code_simp
  have p: "plot_table pandas_read_csv year_revenue_csv ''bar'' =
             Inr \<lparr>kind = ''bar'', title = ''revenue vs year'', xlabel = ''year'', ylabel = ''revenue''\<rparr>"
    by code_simp
  have q: "read_csv bar_chart_env = pandas_read_csv" "out_path bar_chart_env = ''outputs/plot.png''"
    "uuid4 bar_chart_env = ''0''"
    by (simp_all add: bar_chart_env_def quiet_env_def)
  from auto_plot_chart_type [OF h] h o p q show ?thesis
    by (simp add: Let_def)
qed

text \<open>
  The claim C3 as stated (type \<open>bar\<close> whenever the reply contains "bar") fails: the
  reply below contains "bar" and "line", and the table is plotted as a line chart.
\<close>

theorem bar_with_line_is_plotted_as_line:
  "contains (lower ''A bar or a line?'') ''bar'' \<and>
   invoke bar_or_line_env visualizer_runnable table_inputs = (Text ''A bar or a line?'', []) \<and>
   table_text table_inputs = Some year_revenue_csv \<and>
   visualizer_agent bar_or_line_env table_inputs =
     [AIMessage (Text ''A bar or a line?'') [],
      ToolMessage (Text ''outputs/plot.png'') ''plot_table'' ''0'',
      AIMessage (Text ''Automatically plotted table as a line chart. File saved at: outputs/plot.png'') []]"
  by code_simp

section \<open>Properties of \<open>plot_table\<close>\<close>

text \<open>
  Claim C7.  On a table that parsed, \<open>plot_table\<close> answers a chart of the requested type
  for \<open>line\<close>, \<open>bar\<close> and \<open>scatter\<close> and fails with \<open>UnsupportedChartType\<close> for every
  other chart type; on a table that did not parse it fails with the parser's error,
  whatever the chart type.
\<close>

theorem chart_type_is_checked_after_parsing:
  "(parse_table rd tt = Inr t \<longrightarrow>
      (ct \<in> {''line'', ''bar'', ''scatter''} \<longrightarrow>
         (\<exists>ch. plot_table rd tt ct = Inr ch \<and> kind ch = ct)) \<and>
      (ct \<notin> {''line'', ''bar'', ''scatter''} \<longrightarrow>
         plot_table rd tt ct = Inl (UnsupportedChartType ct))) \<and>
   (parse_table rd tt = Inl err \<longrightarrow> plot_table rd tt ct = Inl err)"
  by (auto simp: plot_table_def render_def)

theorem chart_type_is_checked_after_parsing_witness:
  "parse_table pandas_read_csv year_revenue_csv =
     Inr \<lparr>df = [\<lparr>sname = ''year'', is_numeric_dtype = True, cells = [''2020'', ''2021'']\<rparr>,
                \<lparr>sname = ''revenue'', is_numeric_dtype = True, cells = [''100'', ''200'']\<rparr>],
          x_col = ''year'', y_col = ''revenue''\<rparr> \<and>
   plot_table pandas_read_csv year_revenue_csv ''pie'' = Inl (UnsupportedChartType ''pie'') \<and>
   (\<exists>ch. plot_table pandas_read_csv year_revenue_csv ''line'' = Inr ch \<and> kind ch = ''line'') \<and>
   (\<exists>ch. plot_table pandas_read_csv year_revenue_csv ''bar'' = Inr ch \<and> kind ch = ''bar'') \<and>
   (\<exists>ch. plot_table pandas_read_csv year_revenue_csv ''scatter'' = Inr ch \<and> kind ch = ''scatter'') \<and>
   parse_table pandas_read_csv [] = Inl EmptyTableText \<and>
   plot_table pandas_read_csv [] ''pie'' = Inl EmptyTableText"
proof -
  let ?t = "\<lparr>df = [\<lparr>sname = ''year'', is_numeric_dtype = True, cells = [''2020'', ''2021'']\<rparr>,
                  \<lparr>sname = ''revenue'', is_numeric_dtype = True, cells = [''100'', ''200'']\<rparr>],
            x_col = ''year'', y_col = ''revenue''\<rparr>"
  have p: "parse_table pandas_read_csv year_revenue_csv = Inr ?t"
    by code_simp
  have e: "parse_table pandas_read_csv [] = Inl EmptyTableText"
    by code_simp
  from chart_type_is_checked_after_parsing [of pandas_read_csv year_revenue_csv ?t "''pie''"]
    chart_type_is_checked_after_parsing [of pandas_read_csv year_revenue_csv ?t "''line''"]
    chart_type_is_checked_after_parsing [of pandas_read_csv year_revenue_csv ?t "''bar''"]
    chart_type_is_checked_after_parsing [of pandas_read_csv year_revenue_csv ?t "''scatter''"]
    chart_type_is_checked_after_parsing [of pandas_read_csv "[]" _ "''pie''" EmptyTableText]
    p e
  show ?thesis by simp
qed

text \<open>
  The fallback of line 76 takes the second declared column as it is whenever no other
  column is numeric, so the coercion of lines 78 to 85 is never reached: \<open>choose_y\<close>
  leaves the frame unchanged and answers the first choice.
\<close>

lemma coercion_is_never_reached: "choose_y d x = (d, first_choice_y d x)"
  by (simp add: choose_y_def first_choice_y_def split: list.splits option.splits)

text \<open>With the coercion out of reach, the search for a numeric column fails on frames of
  a single column only.\<close>

lemma select_columns_no_numeric_iff:
  "select_columns d = Inl NoNumericColumn \<longleftrightarrow>
     (\<exists>x. choose_x d = Inr x \<and> numeric_cols d x = [] \<and> length d \<le> 1)"
proof (cases "choose_x d")
  case (Inl err)
  then have "err = IndexError"
    by (auto simp: choose_x_def split: option.splits list.splits)
  with Inl show ?thesis
    by (simp add: select_columns_def)
next
  case (Inr x)
  then show ?thesis
    by (auto simp: select_columns_def coercion_is_never_reached first_choice_y_def columns_def
        split: list.splits)
qed

text \<open>
  Claim C2.  The claim says that the chosen y-column is a numeric column other than
  the x-column.  On the table below the x-column is \<open>year\<close>, no other column is
  numeric, and the code takes the second declared column, \<open>year\<close> again, as y.
\<close>

theorem y_column_can_be_the_x_column:
  "select_columns
     [\<lparr>sname = ''label'', is_numeric_dtype = False, cells = [''low'', ''high'']\<rparr>,
      \<lparr>sname = ''year'', is_numeric_dtype = True, cells = [''2020'', ''2021'']\<rparr>] =
     Inr \<lparr>df = [\<lparr>sname = ''label'', is_numeric_dtype = False, cells = [''low'', ''high'']\<rparr>,
                \<lparr>sname = ''year'', is_numeric_dtype = True, cells = [''2020'', ''2021'']\<rparr>],
          x_col = ''year'', y_col = ''year''\<rparr> \<and>
   numeric_cols
     [\<lparr>sname = ''label'', is_numeric_dtype = False, cells = [''low'', ''high'']\<rparr>,
      \<lparr>sname = ''year'', is_numeric_dtype = True, cells = [''2020'', ''2021'']\<rparr>] ''year'' = [] \<and>
   parse_table pandas_read_csv label_year_csv =
     Inr \<lparr>df = [\<lparr>sname = ''label'', is_numeric_dtype = False, cells = [''low'', ''high'']\<rparr>,
                \<lparr>sname = ''year'', is_numeric_dtype = True, cells = [''2020'', ''2021'']\<rparr>],
          x_col = ''year'', y_col = ''year''\<rparr>"
  by code_simp

text \<open>
  Claim C4.  The claim says that parsing fails when the table has no usable numeric
  column.  The table below has two text columns and no numeric one; the code parses
  it, takes \<open>city\<close> as y and goes on to plot.
\<close>

theorem table_without_numeric_column_is_accepted:
  "parse_table pandas_read_csv names_cities_csv =
     Inr \<lparr>df = [\<lparr>sname = ''name'', is_numeric_dtype = False, cells = [''Alice'', ''Bob'']\<rparr>,
                \<lparr>sname = ''city'', is_numeric_dtype = False, cells = [''Paris'', ''Rome'']\<rparr>],
          x_col = ''name'', y_col = ''city''\<rparr> \<and>
   plot_table pandas_read_csv names_cities_csv ''line'' =
     Inr \<lparr>kind = ''line'', title = ''city vs name'', xlabel = ''name'', ylabel = ''city''\<rparr>"
  by code_simp

text \<open>
  Claim C5.  The claim says that a markdown pipe table parses like the same data
  written as CSV.  The code removes the separator row and the outer pipes only; the
  inner pipes stay, the comma reader sees one column, and the table is rejected for
  want of a numeric column, while the CSV text parses to x \<open>year\<close> and y \<open>revenue\<close>.
\<close>

theorem markdown_table_differs_from_csv:
  "is_markdown year_revenue_markdown \<and>
   csv_txt year_revenue_markdown = ''year|revenue'' @ [NL] @ ''2020|100'' @ [NL] @ ''2021|200'' \<and>
   load_frame pandas_read_csv year_revenue_markdown =
     Some [\<lparr>sname = ''year|revenue'', is_numeric_dtype = False, cells = [''2020|100'', ''2021|200'']\<rparr>] \<and>
   parse_table pandas_read_csv year_revenue_markdown = Inl NoNumericColumn \<and>
   parse_table pandas_read_csv year_revenue_csv =
     Inr \<lparr>df = [\<lparr>sname = ''year'', is_numeric_dtype = True, cells = [''2020'', ''2021'']\<rparr>,
                \<lparr>sname = ''revenue'', is_numeric_dtype = True, cells = [''100'', ''200'']\<rparr>],
          x_col = ''year'', y_col = ''revenue''\<rparr>"
  by code_simp

section \<open>Properties of the routing and of a run\<close>

text \<open>The routing functions read the last message; the edges of \<open>create_graph\<close> node by
  node; and a run only ever extends its trace, the messages growing by what the new
  steps returned.\<close>

lemma case_rev_last:
  "xs \<noteq> [] \<Longrightarrow> (case rev xs of [] \<Rightarrow> a | m # ms \<Rightarrow> f m) = f (last xs)"
  by (cases xs rule: rev_cases) auto

lemma route_from_researcher_last:
  "messages s \<noteq> [] \<Longrightarrow>
   route_from_researcher s =
     (if requests_tool (last (messages s)) then Inr ''tools''
      else if get_mode s = ''research'' then Inr END else Inr ''summarizer_agent'')"
  by (simp add: route_from_researcher_def case_rev_last)

lemma route_from_summarizer_last:
  "messages s \<noteq> [] \<Longrightarrow>
   route_from_summarizer s =
     (if requests_tool (last (messages s)) then Inr ''tools''
      else if get_mode s = ''summary'' then Inr END else Inr ''visualizer_agent'')"
  by (simp add: route_from_summarizer_def case_rev_last)

lemma route_from_visualizer_last:
  "messages s \<noteq> [] \<Longrightarrow>
   route_from_visualizer s =
     (if requests_tool (last (messages s)) then Inr ''tools'' else Inr END)"
  by (simp add: route_from_visualizer_def case_rev_last)

lemma next_planner: "next_node create_graph ''planner_agent'' s = Inr ''researcher_agent''"
  by (simp add: next_node_def create_graph_def START_def)

lemma next_start: "next_node create_graph START s = Inr ''planner_agent''"
  by (simp add: next_node_def create_graph_def START_def)

lemma next_tools: "next_node create_graph ''tools'' s = Inr ''researcher_agent''"
  by (simp add: next_node_def create_graph_def START_def)

lemma next_researcher:
  "next_node create_graph ''researcher_agent'' s =
     (case route_from_researcher s of
        Inl err \<Rightarrow> Inl err
      | Inr key \<Rightarrow>
          (if key = ''tools'' then Inr ''tools''
           else if key = ''summarizer_agent'' then Inr ''summarizer_agent''
           else if key = END then Inr END else Inl (KeyError key)))"
  by (simp add: next_node_def create_graph_def START_def END_def split: sum.splits)

lemma next_summarizer:
  "next_node create_graph ''summarizer_agent'' s =
     (case route_from_summarizer s of
        Inl err \<Rightarrow> Inl err
      | Inr key \<Rightarrow>
          (if key = ''visualizer_agent'' then Inr ''visualizer_agent''
           else if key = END then Inr END else Inl (KeyError key)))"
  by (simp add: next_node_def create_graph_def START_def END_def split: sum.splits)

lemma next_visualizer:
  "next_node create_graph ''visualizer_agent'' s =
     (case route_from_visualizer s of
        Inl err \<Rightarrow> Inl err
      | Inr key \<Rightarrow> (if key = END then Inr END else Inl (KeyError key)))"
  by (simp add: next_node_def create_graph_def START_def END_def split: sum.splits)

lemma exec_agents:
  "exec_node create_graph e ''planner_agent'' s = Inr (planner_agent e s)"
  "exec_node create_graph e ''researcher_agent'' s = Inr (researcher_agent e s)"
  "exec_node create_graph e ''summarizer_agent'' s = Inr (summarizer_agent e s)"
  "exec_node create_graph e ''visualizer_agent'' s = Inr (visualizer_agent e s)"
  "exec_node create_graph e ''tools'' s = tools_node e s"
  by (simp_all add: exec_node_def create_graph_def)

lemma add_messages_simps:
  "messages (add_messages s new) = messages s @ new"
  "mode (add_messages s new) = mode s"
  "table_text (add_messages s new) = table_text s"
  by (simp_all add: add_messages_def)

lemma requests_tool_ask:
  "requests_tool (ask e r s) = (snd (invoke e r s) \<noteq> [])"
  by (simp add: ask_def split: prod.splits)

lemma run_extends:
  "run g e k n s tr = (st, s', tr') \<Longrightarrow>
   \<exists>new. tr' = tr @ new \<and> messages s' = messages s @ concat (map snd new) \<and>
         mode s' = mode s \<and> table_text s' = table_text s"
proof (induction k arbitrary: n s tr)
  case 0
  then show ?case by simp
next
  case (Suc k)
  show ?case
  proof (cases "n = END")
    case True
    with Suc.prems show ?thesis by simp
  next
    case notEnd: False
    show ?thesis
    proof (cases "exec_node g e n s")
      case (Inl err)
      with Suc.prems notEnd show ?thesis by simp
    next
      case (Inr new)
      show ?thesis
      proof (cases "next_node g n (add_messages s new)")
        case (Inl err)
        with Suc.prems notEnd Inr have "tr' = tr @ [(n, new)]" "s' = add_messages s new"
          by simp_all
        then show ?thesis by (simp add: add_messages_simps)
      next
        case nxt: (Inr n')
        with Suc.prems notEnd Inr
        have "run g e k n' (add_messages s new) (tr @ [(n, new)]) = (st, s', tr')"
          by simp
        from Suc.IH [OF this] obtain more where
          "tr' = (tr @ [(n, new)]) @ more"
          "messages s' = messages (add_messages s new) @ concat (map snd more)"
          "mode s' = mode (add_messages s new)"
          "table_text s' = table_text (add_messages s new)"
          by blast
        then show ?thesis
          by (intro exI [of _ "(n, new) # more"]) (simp add: add_messages_simps)
      qed
    qed
  qed
qed

lemma next_researcher_research:
  assumes "mode s = Some ''research''" and "messages s \<noteq> []"
  shows "next_node create_graph ''researcher_agent'' s =
           (if requests_tool (last (messages s)) then Inr ''tools'' else Inr END)"
  using assms
  by (simp add: next_researcher route_from_researcher_last get_mode_def END_def)

lemma run_research_nodes:
  assumes "mode s = Some ''research''"
    and "n \<in> insert END research_nodes"
    and "fst ` set tr \<subseteq> research_nodes"
  shows "fst ` set (snd (snd (run create_graph e k n s tr))) \<subseteq> research_nodes"
  using assms
proof (induction k arbitrary: n s tr)
  case 0
  then show ?case by simp
next
  case (Suc k)
  from Suc.prems(2) consider "n = END" | "n = ''planner_agent''"
    | "n = ''researcher_agent''" | "n = ''tools''"
    by (auto simp: research_nodes_def)
  then show ?case
  proof cases
    case 1
    with Suc.prems show ?thesis by simp
  next
    case 2
    let ?s = "add_messages s (planner_agent e s)"
    let ?tr = "tr @ [(n, planner_agent e s)]"
    have "fst ` set (snd (snd (run create_graph e k ''researcher_agent'' ?s ?tr)))
            \<subseteq> research_nodes"
      using Suc.prems 2
      by (intro Suc.IH) (auto simp: add_messages_simps research_nodes_def)
    with 2 show ?thesis
      by (simp add: exec_agents next_planner END_def)
  next
    case 3
    let ?s = "add_messages s (researcher_agent e s)"
    let ?tr = "tr @ [(n, researcher_agent e s)]"
    have nx: "next_node create_graph ''researcher_agent'' ?s =
                (if requests_tool (ask e researcher_runnable s) then Inr ''tools'' else Inr END)"
      using Suc.prems(1)
      by (subst next_researcher_research)
         (simp_all add: add_messages_simps researcher_agent_def)
    have "fst ` set (snd (snd (run create_graph e k n' ?s ?tr))) \<subseteq> research_nodes"
      if "n' = ''tools'' \<or> n' = END" for n'
      using Suc.prems 3 that
      by (intro Suc.IH) (auto simp: add_messages_simps research_nodes_def)
    with 3 nx show ?thesis
      by (simp add: exec_agents END_def)
  next
    case 4
    show ?thesis
    proof (cases "tools_node e s")
      case (Inl err)
      with 4 Suc.prems show ?thesis
        by (simp add: exec_agents END_def)
    next
      case (Inr new)
      have "fst ` set (snd (snd (run create_graph e k ''researcher_agent''
              (add_messages s new) (tr @ [(n, new)])))) \<subseteq> research_nodes"
        using Suc.prems 4
        by (intro Suc.IH) (auto simp: add_messages_simps research_nodes_def)
      with 4 Inr show ?thesis
        by (simp add: exec_agents next_tools END_def)
    qed
  qed
qed

lemma run_step_trace:
  assumes "n \<noteq> END" and "exec_node g e n s = Inr new"
  shows "\<exists>more. snd (snd (run g e (Suc k) n s tr)) = tr @ [(n, new)] @ more"
proof (cases "next_node g n (add_messages s new)")
  case (Inl err)
  with assms show ?thesis by simp
next
  case (Inr n')
  obtain st s' tr' where r: "run g e k n' (add_messages s new) (tr @ [(n, new)]) = (st, s', tr')"
    by (cases "run g e k n' (add_messages s new) (tr @ [(n, new)])") auto
  from run_extends [OF r] obtain more where "tr' = (tr @ [(n, new)]) @ more"
    by blast
  with assms Inr r show ?thesis by simp
qed

lemma tool_free_run_step:
  assumes "n \<noteq> END" and "exec_node g e n s = Inr new"
    and "tool_free (snd (snd (run g e (Suc k) n s tr)))"
  shows "list_all (\<lambda>m. \<not> requests_tool m) new"
proof -
  from run_step_trace [OF assms(1,2)] obtain more where
    "snd (snd (run g e (Suc k) n s tr)) = tr @ [(n, new)] @ more"
    by blast
  with assms(3) have "tool_free (tr @ [(n, new)] @ more)"
    by (simp only:)
  then show ?thesis
    by (simp add: tool_free_def)
qed

lemma visualizer_agent_quiet:
  assumes "list_all (\<lambda>m. \<not> requests_tool m) (visualizer_agent e s)"
  shows "visualizer_agent e s \<noteq> [] \<and> \<not> requests_tool (last (visualizer_agent e s))"
proof -
  have ne: "visualizer_agent e s \<noteq> []"
    by (simp add: visualizer_agent_def split: prod.splits sum.splits)
  then have "last (visualizer_agent e s) \<in> set (visualizer_agent e s)"
    by simp
  with assms ne show ?thesis
    by (auto simp: list_all_iff)
qed

lemma run_tool_free:
  assumes free: "tool_free (snd (snd (run create_graph e (Suc (Suc (Suc (Suc (Suc k))))) ''planner_agent'' s [])))"
    and "mode s \<noteq> Some ''research''" and "mode s \<noteq> Some ''summary''"
  shows "fst (run create_graph e (Suc (Suc (Suc (Suc (Suc k))))) ''planner_agent'' s []) = Finished \<and>
         map fst (snd (snd (run create_graph e (Suc (Suc (Suc (Suc (Suc k))))) ''planner_agent'' s []))) =
           [''planner_agent'', ''researcher_agent'', ''summarizer_agent'', ''visualizer_agent'']"
proof -
  let ?s1 = "add_messages s (planner_agent e s)"
  let ?s2 = "add_messages ?s1 (researcher_agent e ?s1)"
  let ?s3 = "add_messages ?s2 (summarizer_agent e ?s2)"
  let ?s4 = "add_messages ?s3 (visualizer_agent e ?s3)"
  let ?t1 = "[(''planner_agent'', planner_agent e s)]"
  let ?t2 = "?t1 @ [(''researcher_agent'', researcher_agent e ?s1)]"
  let ?t3 = "?t2 @ [(''summarizer_agent'', summarizer_agent e ?s2)]"
  let ?t4 = "?t3 @ [(''visualizer_agent'', visualizer_agent e ?s3)]"
  let ?r = "run create_graph e (Suc (Suc (Suc (Suc (Suc k))))) ''planner_agent'' s []"
  have m: "get_mode s \<noteq> ''research''" "get_mode s \<noteq> ''summary''"
    using assms(2,3) by (auto simp: get_mode_def split: option.splits)
  have gm: "get_mode (add_messages st new) = get_mode st" for st new
    by (simp add: get_mode_def add_messages_simps)
  have r1: "?r = run create_graph e (Suc (Suc (Suc (Suc k)))) ''researcher_agent'' ?s1 ?t1"
    by (simp add: exec_agents next_planner END_def)
  have q2: "\<not> requests_tool (ask e researcher_runnable ?s1)"
    using tool_free_run_step [of "''researcher_agent''" create_graph e ?s1
        "researcher_agent e ?s1" "Suc (Suc (Suc k))" ?t1] free
    unfolding r1 by (simp add: exec_agents END_def researcher_agent_def)
  have n2: "next_node create_graph ''researcher_agent'' ?s2 = Inr ''summarizer_agent''"
    using q2 m
    by (simp add: next_researcher route_from_researcher_last add_messages_simps
        researcher_agent_def gm)
  have r2: "?r = run create_graph e (Suc (Suc (Suc k))) ''summarizer_agent'' ?s2 ?t2"
    unfolding r1 using n2 by (simp add: exec_agents END_def)
  have q3: "\<not> requests_tool (ask e summarizer_runnable ?s2)"
    using tool_free_run_step [of "''summarizer_agent''" create_graph e ?s2
        "summarizer_agent e ?s2" "Suc (Suc k)" ?t2] free
    unfolding r2 by (simp add: exec_agents END_def summarizer_agent_def)
  have n3: "next_node create_graph ''summarizer_agent'' ?s3 = Inr ''visualizer_agent''"
    using q3 m
    by (simp add: next_summarizer route_from_summarizer_last add_messages_simps
        summarizer_agent_def gm)
  have r3: "?r = run create_graph e (Suc (Suc k)) ''visualizer_agent'' ?s3 ?t3"
    unfolding r2 using n3 by (simp add: exec_agents END_def)
  have q4: "list_all (\<lambda>m. \<not> requests_tool m) (visualizer_agent e ?s3)"
    using tool_free_run_step [of "''visualizer_agent''" create_graph e ?s3
        "visualizer_agent e ?s3" "Suc k" ?t3] free
    unfolding r3 by (simp add: exec_agents END_def)
  have n4: "next_node create_graph ''visualizer_agent'' ?s4 = Inr END"
    using visualizer_agent_quiet [OF q4]
    by (simp add: next_visualizer route_from_visualizer_last add_messages_simps)
  have r4: "?r = (Finished, ?s4, ?t4)"
    unfolding r3 using n4 by (simp add: exec_agents END_def)
  show ?thesis
    unfolding r4 by simp
qed

text \<open>
  Claim C10.  Every routing decision is a function of the mode field and of whether the
  last message carries a non-empty tool-call list: two states that agree on the mode
  and on that test of their last message get the same answer from
  \<open>route_from_researcher\<close>, \<open>route_from_summarizer\<close> and \<open>route_from_visualizer\<close>,
  whatever their earlier messages, the text of their messages and their
  \<open>table_text\<close>.
\<close>

theorem routing_reads_mode_and_last_tool_calls:
  assumes "mode s = mode t"
    and "messages s \<noteq> []" and "messages t \<noteq> []"
    and "requests_tool (last (messages s)) = requests_tool (last (messages t))"
  shows "route_from_researcher s = route_from_researcher t \<and>
         route_from_summarizer s = route_from_summarizer t \<and>
         route_from_visualizer s = route_from_visualizer t"
  using assms
  by (simp add: route_from_researcher_last route_from_summarizer_last
      route_from_visualizer_last get_mode_def)

theorem routing_reads_mode_and_last_tool_calls_witness:
  "mode (inputs (Some ''summary'')) = mode ((inputs (Some ''summary''))\<lparr>messages := [AIMessage (Text ''hi'') []], table_text := None\<rparr>) \<and>
   messages (inputs (Some ''summary'')) \<noteq> [] \<and>
   requests_tool (last (messages (inputs (Some ''summary'')))) = requests_tool (last [AIMessage (Text ''hi'') []]) \<and>
   route_from_researcher (inputs (Some ''summary'')) =
     route_from_researcher ((inputs (Some ''summary''))\<lparr>messages := [AIMessage (Text ''hi'') []], table_text := None\<rparr>) \<and>
   route_from_summarizer (inputs (Some ''summary'')) =
     route_from_summarizer ((inputs (Some ''summary''))\<lparr>messages := [AIMessage (Text ''hi'') []], table_text := None\<rparr>) \<and>
   route_from_visualizer (inputs (Some ''summary'')) =
     route_from_visualizer ((inputs (Some ''summary''))\<lparr>messages := [AIMessage (Text ''hi'') []], table_text := None\<rparr>) \<and>
   route_from_summarizer (inputs (Some ''summary'')) = Inr END"
proof -
  let ?t = "(inputs (Some ''summary''))\<lparr>messages := [AIMessage (Text ''hi'') []], table_text := None\<rparr>"
  have h: "mode (inputs (Some ''summary'')) = mode ?t" "messages (inputs (Some ''summary'')) \<noteq> []"
    "messages ?t \<noteq> []"
    "requests_tool (last (messages (inputs (Some ''summary'')))) = requests_tool (last (messages ?t))"
    by (simp_all add: inputs_def)
  have v: "route_from_summarizer (inputs (Some ''summary'')) = Inr END"
    by (simp add: route_from_summarizer_def inputs_def get_mode_def)
  from routing_reads_mode_and_last_tool_calls [OF h] h v show ?thesis by simp
qed

text \<open>
  Claim C8.  In a run with mode \<open>research\<close> only the planner, the researcher and the
  tool node ever run, and the messages of the final state are the inputs followed by
  what these steps returned, so none is authored by the summarizer or the visualizer.
  A Research step whose message requests no tool is followed by the end of the run;
  a Research step whose message requests a tool is followed by the tool node, mode
  \<open>research\<close> notwithstanding.
\<close>

theorem research_mode_ends_after_research:
  assumes "mode s = Some ''research''"
  shows "set (steps (app_invoke e limit s)) \<subseteq> {''planner_agent'', ''researcher_agent'', ''tools''} \<and>
         messages (fst (snd (app_invoke e limit s))) =
           messages s @ concat (map snd (snd (snd (app_invoke e limit s)))) \<and>
         (snd (invoke e researcher_runnable s) = [] \<longrightarrow>
            run create_graph e (Suc (Suc k)) ''researcher_agent'' s tr =
              (Finished, add_messages s (researcher_agent e s),
               tr @ [(''researcher_agent'', researcher_agent e s)])) \<and>
         (snd (invoke e researcher_runnable s) \<noteq> [] \<longrightarrow>
            run create_graph e (Suc k) ''researcher_agent'' s tr =
              run create_graph e k ''tools'' (add_messages s (researcher_agent e s))
                (tr @ [(''researcher_agent'', researcher_agent e s)]))"
proof -
  let ?s = "add_messages s (researcher_agent e s)"
  have nx: "next_node create_graph ''researcher_agent'' ?s =
              (if snd (invoke e researcher_runnable s) \<noteq> [] then Inr ''tools'' else Inr END)"
    using assms
    by (subst next_researcher_research)
       (simp_all add: add_messages_simps researcher_agent_def requests_tool_ask)
  have "fst ` set (snd (snd (run create_graph e limit ''planner_agent'' s []))) \<subseteq> research_nodes"
    using assms by (intro run_research_nodes) (simp_all add: research_nodes_def)
  then have a: "set (steps (app_invoke e limit s)) \<subseteq> {''planner_agent'', ''researcher_agent'', ''tools''}"
    by (simp add: steps_def app_invoke_def next_start research_nodes_def)
  obtain st s' tr' where r: "run create_graph e limit ''planner_agent'' s [] = (st, s', tr')"
    by (cases "run create_graph e limit ''planner_agent'' s []") auto
  from run_extends [OF r]
  have b: "messages (fst (snd (app_invoke e limit s))) =
             messages s @ concat (map snd (snd (snd (app_invoke e limit s))))"
    by (auto simp: app_invoke_def next_start r)
  have c: "run create_graph e (Suc (Suc k)) ''researcher_agent'' s tr =
              (Finished, ?s, tr @ [(''researcher_agent'', researcher_agent e s)])"
    if "snd (invoke e researcher_runnable s) = []"
    using that nx by (simp add: exec_agents END_def)
  have d: "run create_graph e (Suc k) ''researcher_agent'' s tr =
             run create_graph e k ''tools'' ?s (tr @ [(''researcher_agent'', researcher_agent e s)])"
    if "snd (invoke e researcher_runnable s) \<noteq> []"
    using that nx by (simp add: exec_agents END_def)
  from a b c d show ?thesis by blast
qed

theorem research_mode_ends_after_research_witness:
  "mode (inputs (Some ''research'')) = Some ''research'' \<and>
   set (steps (app_invoke quiet_env 25 (inputs (Some ''research''))))
     \<subseteq> {''planner_agent'', ''researcher_agent'', ''tools''} \<and>
   snd (invoke quiet_env researcher_runnable (inputs (Some ''research''))) = [] \<and>
   run create_graph quiet_env (Suc (Suc 0)) ''researcher_agent'' (inputs (Some ''research'')) [] =
     (Finished, add_messages (inputs (Some ''research'')) [AIMessage (Text ''ok'') []],
      [(''researcher_agent'', [AIMessage (Text ''ok'') []])]) \<and>
   snd (invoke searching_env researcher_runnable (inputs (Some ''research''))) \<noteq> [] \<and>
   run create_graph searching_env (Suc 0) ''researcher_agent'' (inputs (Some ''research'')) [] =
     run create_graph searching_env 0 ''tools''
       (add_messages (inputs (Some ''research'')) [AIMessage (Text []) [search_call]])
       [(''researcher_agent'', [AIMessage (Text []) [search_call]])]"
proof -
  have h: "mode (inputs (Some ''research'')) = Some ''research''"
    by (simp add: inputs_def)
  have q: "snd (invoke quiet_env researcher_runnable (inputs (Some ''research''))) = []"
    "researcher_agent quiet_env (inputs (Some ''research'')) = [AIMessage (Text ''ok'') []]"
    by (simp_all add: quiet_env_def researcher_agent_def ask_def)
  have t: "snd (invoke searching_env researcher_runnable (inputs (Some ''research''))) \<noteq> []"
    "researcher_agent searching_env (inputs (Some ''research'')) = [AIMessage (Text []) [search_call]]"
    by (simp_all add: searching_env_def quiet_env_def researcher_agent_def ask_def inputs_def)
  from research_mode_ends_after_research [OF h, of quiet_env 25 0 "[]"]
    research_mode_ends_after_research [OF h, of searching_env 25 0 "[]"] h q t
  show ?thesis by simp
qed

text \<open>
  Claim C9.  An absent mode is read as \<open>full\<close> by every routing function.  For a mode
  other than \<open>research\<close> and \<open>summary\<close>, every run of at least five steps in which no
  step returns a tool request finishes, and it executes the planner, the researcher,
  the summarizer and the visualizer once each, in that order.
\<close>

theorem full_mode_runs_each_step_once:
  assumes "tool_free (snd (snd (app_invoke e limit s)))"
    and "mode s \<noteq> Some ''research''" and "mode s \<noteq> Some ''summary''"
    and "5 \<le> limit"
  shows "fst (app_invoke e limit s) = Finished \<and>
         steps (app_invoke e limit s) =
           [''planner_agent'', ''researcher_agent'', ''summarizer_agent'', ''visualizer_agent''] \<and>
         get_mode (s\<lparr>mode := None\<rparr>) = ''full'' \<and>
         route_from_researcher (s\<lparr>mode := None\<rparr>) = route_from_researcher (s\<lparr>mode := Some ''full''\<rparr>) \<and>
         route_from_summarizer (s\<lparr>mode := None\<rparr>) = route_from_summarizer (s\<lparr>mode := Some ''full''\<rparr>) \<and>
         route_from_visualizer (s\<lparr>mode := None\<rparr>) = route_from_visualizer (s\<lparr>mode := Some ''full''\<rparr>)"
proof -
  from \<open>5 \<le> limit\<close> obtain k where "limit = 5 + k"
    using le_Suc_ex by blast
  then have k: "limit = Suc (Suc (Suc (Suc (Suc k))))"
    by simp
  have inv: "app_invoke e l s = run create_graph e l ''planner_agent'' s []" for l
    by (simp add: app_invoke_def next_start)
  have free: "tool_free (snd (snd (run create_graph e (Suc (Suc (Suc (Suc (Suc k)))))
                 ''planner_agent'' s [])))"
    using assms(1) unfolding inv k .
  from run_tool_free [OF free assms(2,3)]
  have "fst (app_invoke e limit s) = Finished \<and>
        steps (app_invoke e limit s) =
          [''planner_agent'', ''researcher_agent'', ''summarizer_agent'', ''visualizer_agent'']"
    unfolding inv steps_def k .
  moreover have "get_mode (s\<lparr>mode := None\<rparr>) = ''full''"
    by (simp add: get_mode_def)
  moreover have "route_from_researcher (s\<lparr>mode := None\<rparr>) = route_from_researcher (s\<lparr>mode := Some ''full''\<rparr>)"
    by (simp add: route_from_researcher_def get_mode_def)
  moreover have "route_from_summarizer (s\<lparr>mode := None\<rparr>) = route_from_summarizer (s\<lparr>mode := Some ''full''\<rparr>)"
    by (simp add: route_from_summarizer_def get_mode_def)
  moreover have "route_from_visualizer (s\<lparr>mode := None\<rparr>) = route_from_visualizer (s\<lparr>mode := Some ''full''\<rparr>)"
    by (simp add: route_from_visualizer_def)
  ultimately show ?thesis by blast
qed

theorem full_mode_runs_each_step_once_witness:
  "tool_free (snd (snd (app_invoke quiet_env 25 (inputs None)))) \<and>
   mode (inputs None) \<noteq> Some ''research'' \<and> mode (inputs None) \<noteq> Some ''summary'' \<and>
   (5::nat) \<le> 25 \<and>
   fst (app_invoke quiet_env 25 (inputs None)) = Finished \<and>
   steps (app_invoke quiet_env 25 (inputs None)) =
     [''planner_agent'', ''researcher_agent'', ''summarizer_agent'', ''visualizer_agent'']"
proof -
  have h: "tool_free (snd (snd (app_invoke quiet_env 25 (inputs None))))"
    by code_simp
  have m: "mode (inputs None) \<noteq> Some ''research''" "mode (inputs None) \<noteq> Some ''summary''"
    by (simp_all add: inputs_def)
  from full_mode_runs_each_step_once [OF h m] h m show ?thesis by simp
qed

text \<open>
  Claim C1.  The claim says that the tool node hands control back to the step that
  requested the tool.  The graph does otherwise: the only edge out of \<open>tools\<close> leads
  to the researcher, and the path maps of the summarizer and the visualizer have no
  key \<open>tools\<close>.  In the run below the visualizer requests the plot tool,
  \<open>route_from_visualizer\<close> answers \<open>tools\<close>, and the run aborts with KeyError after
  the visualizer's first and only step.
\<close>

theorem visualizer_tool_request_aborts_run:
  "fst (app_invoke plotting_env 25 (inputs (Some ''full''))) = Aborted (KeyError ''tools'') \<and>
   steps (app_invoke plotting_env 25 (inputs (Some ''full''))) =
     [''planner_agent'', ''researcher_agent'', ''summarizer_agent'', ''visualizer_agent''] \<and>
   route_from_visualizer (fst (snd (app_invoke plotting_env 25 (inputs (Some ''full''))))) = Inr ''tools'' \<and>
   next_node create_graph ''tools'' s = Inr ''researcher_agent''"
proof -
  have "app_invoke plotting_env 25 (inputs (Some ''full'')) =
          (Aborted (KeyError ''tools''),
           \<lparr>messages = [HumanMessage (Text ''Find 2 recent stats''),
              AIMessage (Text ''ok'') [], AIMessage (Text ''ok'') [], AIMessage (Text ''ok'') [],
              AIMessage (Text []) [plot_call]], mode = Some ''full'', table_text = Some []\<rparr>,
           [(''planner_agent'', [AIMessage (Text ''ok'') []]),
            (''researcher_agent'', [AIMessage (Text ''ok'') []]),
            (''summarizer_agent'', [AIMessage (Text ''ok'') []]),
            (''visualizer_agent'', [AIMessage (Text []) [plot_call]])])"
    by code_simp
  then show ?thesis
    by (simp add: steps_def next_tools route_from_visualizer_def)
qed

end
